theory Spec2Isabelle
  imports Complex_Main
begin

section \<open>PongV5: the game state\<close>

text \<open>
  The program keeps its state in module-level variables that the two callbacks
  \<^verbatim>\<open>ControlesJ1etJ2\<close> and \<^verbatim>\<open>bouboule\<close> declare \<^verbatim>\<open>global\<close>. The record below
  gathers them, one field per variable, under the variable's own name.

  Numbers. The paddle offsets \<open>a1\<close>, \<open>a2\<close> and the scores \<open>SJ1\<close>, \<open>SJ2\<close> only ever hold
  Python integers, so they are \<open>int\<close>. The ball position and velocity start as
  integers and become Python floats after the first paddle hit (multiplication by the
  literal 1.259); they are modelled by \<open>real\<close>, the type the specification gives them.
  Floating-point rounding, infinities and NaN are therefore not part of the model:
  \<open>+\<close> and \<open>*\<close> on the ball are the exact operations.

  The canvas items \<^verbatim>\<open>boule\<close>, \<^verbatim>\<open>raquette1\<close>, \<^verbatim>\<open>raquette2\<close> are represented by the
  coordinates of their bounding boxes, and the two Tk variables \<^verbatim>\<open>Score1\<close>,
  \<^verbatim>\<open>Score2\<close> by the text they hold (what the labels \<^verbatim>\<open>BS1\<close>, \<^verbatim>\<open>BS2\<close> display).
\<close>

type_synonym coords = "real \<times> real \<times> real \<times> real"

record pong =
  bouleX :: real
  bouleY :: real
  plusX :: real
  plusY :: real
  a1 :: int
  a2 :: int
  SJ1 :: int
  SJ2 :: int
  Score1 :: string
  Score2 :: string
  boule :: coords
  raquette1 :: coords
  raquette2 :: coords

text \<open>\<^verbatim>\<open>canvas.move(item, dx, dy)\<close> shifts the item's box.\<close>

fun canvas_move :: "coords \<Rightarrow> real \<Rightarrow> real \<Rightarrow> coords" where
  "canvas_move (x0, y0, x1, y1) dx dy = (x0 + dx, y0 + dy, x1 + dx, y1 + dy)"

subsection \<open>Python's \<^verbatim>\<open>str\<close> on integers\<close>

definition digit_char :: "nat \<Rightarrow> char" where
  "digit_char d = ''0123456789'' ! (d mod 10)"

fun str_nat :: "nat \<Rightarrow> string" where
  "str_nat n = (if n < 10 then [digit_char n] else str_nat (n div 10) @ [digit_char (n mod 10)])"

text \<open>The equation of \<open>str_nat\<close> rewrites \<open>str_nat n\<close> into a term that contains
  \<open>str_nat\<close> again; it is used explicitly, not as a default rewrite rule.\<close>

declare str_nat.simps [simp del]

definition str :: "int \<Rightarrow> string" where
  "str i = (if i < 0 then CHR ''-'' # str_nat (nat (- i)) else str_nat (nat i))"

subsection \<open>The state after the module's top-level assignments\<close>

text \<open>
  \<^verbatim>\<open>bouleX=306\<close>, \<^verbatim>\<open>bouleY=256\<close>, \<^verbatim>\<open>a1=140\<close>, \<^verbatim>\<open>a2=140\<close>, \<^verbatim>\<open>float=plusX=4\<close>,
  \<^verbatim>\<open>float=plusY=6\<close>, \<^verbatim>\<open>SJ1=0\<close>, \<^verbatim>\<open>SJ2=0\<close>; an \<^verbatim>\<open>IntVar()\<close> starts at 0; the oval
  is created at \<open>(bouleX, bouleY, bouleX+5, bouleY+5)\<close> and the rectangles at
  \<open>(12, 140, 16, 220)\<close> and \<open>(600, 140, 604, 220)\<close>.
\<close>

definition init :: pong where
  "init = \<lparr> bouleX = 306, bouleY = 256, plusX = 4, plusY = 6, a1 = 140, a2 = 140,
            SJ1 = 0, SJ2 = 0, Score1 = ''0'', Score2 = ''0'',
            boule = (306, 256, 306 + 5, 256 + 5),
            raquette1 = (12, 140, 16, 140 + 80),
            raquette2 = (600, 140, 604, 140 + 80) \<rparr>"

section \<open>The key handler \<^verbatim>\<open>ControlesJ1etJ2\<close>\<close>

text \<open>The argument \<open>Key\<close> is \<^verbatim>\<open>event.keysym\<close>. The four branches form one
  \<^verbatim>\<open>if\<close>/\<^verbatim>\<open>elif\<close> chain, kept in the source's order.\<close>

definition ControlesJ1etJ2 :: "string \<Rightarrow> pong \<Rightarrow> pong" where
  "ControlesJ1etJ2 Key s =
     (if Key = ''s'' \<and> a1 s + 25 \<le> 446 then
        s\<lparr>raquette1 := canvas_move (raquette1 s) 0 25, a1 := a1 s + 25\<rparr>
      else if Key = ''z'' \<and> a1 s - 25 \<ge> - 25 then
        s\<lparr>raquette1 := canvas_move (raquette1 s) 0 (- 25), a1 := a1 s - 25\<rparr>
      else if Key = ''Down'' \<and> a2 s + 25 \<le> 446 then
        s\<lparr>raquette2 := canvas_move (raquette2 s) 0 25, a2 := a2 s + 25\<rparr>
      else if Key = ''Up'' \<and> a2 s - 25 \<ge> - 25 then
        s\<lparr>raquette2 := canvas_move (raquette2 s) 0 (- 25), a2 := a2 s - 25\<rparr>
      else s)"

section \<open>The tick \<^verbatim>\<open>bouboule\<close>\<close>

text \<open>
  The body of \<^verbatim>\<open>bouboule\<close> is a sequence of four blocks; each is a function on
  the state and the tick is their composition in the source's order.

  First block: \<^verbatim>\<open>bouleX+=plusX\<close>, \<^verbatim>\<open>bouleY+=plusY\<close>, then
  \<^verbatim>\<open>canvas.coords(boule,bouleX,bouleY,bouleX+5,bouleY+5)\<close>. The call
  \<^verbatim>\<open>canvas.after(50,bouboule)\<close> that follows re-arms the timer; it changes no
  variable, and is represented by the next \<open>Tick\<close> event of a run (below).
\<close>

definition avance :: "pong \<Rightarrow> pong" where
  "avance s =
     (let s1 = s\<lparr>bouleX := bouleX s + plusX s\<rparr>;
          s2 = s1\<lparr>bouleY := bouleY s1 + plusY s1\<rparr>
      in s2\<lparr>boule := (bouleX s2, bouleY s2, bouleX s2 + 5, bouleY s2 + 5)\<rparr>)"

text \<open>Second block: the walls at the top and at the bottom.\<close>

definition murs :: "pong \<Rightarrow> pong" where
  "murs s =
     (if bouleY s < 10 then s\<lparr>plusY := plusY s * (- 1)\<rparr>
      else if bouleY s > 486 then s\<lparr>plusY := plusY s * (- 1)\<rparr>
      else s)"

text \<open>Third block: the points, when the ball reaches the left or the right end.
  The assignments are applied one after the other, as written.\<close>

definition points :: "pong \<Rightarrow> pong" where
  "points s =
     (if bouleX s < 1 then
        (let s1 = s\<lparr>SJ2 := SJ2 s + 1\<rparr>;
             s2 = s1\<lparr>plusX := plusX s1 * (- 1)\<rparr>;
             s3 = s2\<lparr>bouleX := 306\<rparr>;
             s4 = s3\<lparr>bouleY := 256\<rparr>;
             s5 = s4\<lparr>Score2 := ''J2:'' @ str (SJ2 s4)\<rparr>;
             s6 = s5\<lparr>plusY := 3\<rparr>
         in s6\<lparr>plusX := 2\<rparr>)
      else if bouleX s > 612 then
        (let s1 = s\<lparr>SJ1 := SJ1 s + 1\<rparr>;
             s2 = s1\<lparr>plusX := plusX s1 * (- 1)\<rparr>;
             s3 = s2\<lparr>bouleX := 306\<rparr>;
             s4 = s3\<lparr>bouleY := 256\<rparr>;
             s5 = s4\<lparr>Score1 := ''J1:'' @ str (SJ1 s4)\<rparr>;
             s6 = s5\<lparr>plusY := 3\<rparr>
         in s6\<lparr>plusX := 2\<rparr>)
      else s)"

text \<open>Fourth block: the paddles. \<^verbatim>\<open>a1<bouleY<a1+80\<close> is Python's chained
  comparison.\<close>

definition raquettes :: "pong \<Rightarrow> pong" where
  "raquettes s =
     (if bouleX s < 18 \<and> (of_int (a1 s) < bouleY s \<and> bouleY s < of_int (a1 s + 80)) then
        (let s1 = s\<lparr>plusX := plusX s * (- 1)\<rparr>;
             s2 = s1\<lparr>plusY := plusY s1 * 1.259\<rparr>
         in s2\<lparr>plusX := plusX s2 * 1.259\<rparr>)
      else if bouleX s > 592 \<and> (of_int (a2 s) < bouleY s \<and> bouleY s < of_int (a2 s + 80)) then
        (let s1 = s\<lparr>plusX := plusX s * (- 1)\<rparr>;
             s2 = s1\<lparr>plusY := plusY s1 * 1.259\<rparr>
         in s2\<lparr>plusX := plusX s2 * 1.259\<rparr>)
      else s)"

definition bouboule :: "pong \<Rightarrow> pong" where
  "bouboule s = raquettes (points (murs (avance s)))"

subsection \<open>The conditions of the branches\<close>

text \<open>The tests of the source's \<^verbatim>\<open>if\<close>/\<^verbatim>\<open>elif\<close> chains, named so that theorems can
  say which branch fires. Each is evaluated on the state the block receives.\<close>

definition but_gauche :: "pong \<Rightarrow> bool" where
  "but_gauche s = (bouleX s < 1)"

definition but_droit :: "pong \<Rightarrow> bool" where
  "but_droit s = (\<not> bouleX s < 1 \<and> bouleX s > 612)"

definition touche1 :: "pong \<Rightarrow> bool" where
  "touche1 s = (bouleX s < 18 \<and> of_int (a1 s) < bouleY s \<and> bouleY s < of_int (a1 s + 80))"

definition touche2 :: "pong \<Rightarrow> bool" where
  "touche2 s = (\<not> touche1 s \<and> bouleX s > 592 \<and> of_int (a2 s) < bouleY s \<and> bouleY s < of_int (a2 s + 80))"

text \<open>A tick started in \<open>s\<close> contains a goal when the third block's test holds on the
  state it receives, and a paddle hit when the fourth block's test holds on the
  state that block receives.\<close>

definition but :: "pong \<Rightarrow> bool" where
  "but s = (let t = murs (avance s) in but_gauche t \<or> but_droit t)"

definition touche :: "pong \<Rightarrow> bool" where
  "touche s = (let t = points (murs (avance s)) in touche1 t \<or> touche2 t)"

section \<open>Runs: ticks and key events delivered one at a time\<close>

datatype event = Tick | KeyPress string

fun handle :: "event \<Rightarrow> pong \<Rightarrow> pong" where
  "handle Tick s = bouboule s"
| "handle (KeyPress Key) s = ControlesJ1etJ2 Key s"

fun run :: "event list \<Rightarrow> pong \<Rightarrow> pong" where
  "run [] s = s"
| "run (e # es) s = run es (handle e s)"



section \<open>Example states\<close>

text \<open>Concrete states on which the theorems below are evaluated. \<open>ex_gauche\<close>: the
  ball one tick before the left end; \<open>ex_droit\<close>: one tick before the right end, at an
  escalated speed; \<open>ex_raquette\<close>: in front of the left paddle, moving towards it;
  \<open>ex_mur_haut\<close>, \<open>ex_mur_bas\<close>: one tick before crossing \<open>y = 10\<close>, \<open>y = 486\<close>;
  \<open>ex_bord_haut\<close>, \<open>ex_bord_bas\<close>: one tick before landing exactly on them.\<close>

definition ex_gauche :: pong where
  "ex_gauche = init\<lparr>bouleX := 0, bouleY := 300, plusX := - 4, plusY := - 6\<rparr>"

definition ex_droit :: pong where
  "ex_droit = init\<lparr>bouleX := 610, bouleY := 250, plusX := 4.8, plusY := 7.2\<rparr>"


definition ex_mur_haut :: pong where
  "ex_mur_haut = init\<lparr>bouleY := 12, plusY := - 6\<rparr>"

definition ex_mur_bas :: pong where
  "ex_mur_bas = init\<lparr>bouleY := 484, plusY := 6\<rparr>"

definition ex_bord_haut :: pong where
  "ex_bord_haut = init\<lparr>bouleY := 16, plusY := - 6\<rparr>"

definition ex_bord_bas :: pong where
  "ex_bord_bas = init\<lparr>bouleY := 480, plusY := 6\<rparr>"

section \<open>Auxiliary notions used in the statements\<close>

text \<open>The label format as the specification words it: player tag, colon, space,
  count. It is compared below with the text the program builds.\<close>

definition label_spec :: "int \<Rightarrow> int \<Rightarrow> string" where
  "label_spec n c = ''J'' @ str n @ '': '' @ str c"

text \<open>The positions a paddle can take: steps of 25 around 140, between \<open>-10\<close> and 440.\<close>

definition grille :: "int \<Rightarrow> bool" where
  "grille a = (- 10 \<le> a \<and> a \<le> 440 \<and> a mod 25 = 15)"

section \<open>Field-wise descriptions of the blocks\<close>

text \<open>What each block does to each variable. The later proofs use these equations
  instead of unfolding the blocks.\<close>

lemma avance_simps:
  "bouleX (avance s) = bouleX s + plusX s"
  "bouleY (avance s) = bouleY s + plusY s"
  "plusX (avance s) = plusX s"
  "plusY (avance s) = plusY s"
  "a1 (avance s) = a1 s"
  "a2 (avance s) = a2 s"
  "SJ1 (avance s) = SJ1 s"
  "SJ2 (avance s) = SJ2 s"
  "Score1 (avance s) = Score1 s"
  "Score2 (avance s) = Score2 s"
  "boule (avance s) = (bouleX s + plusX s, bouleY s + plusY s, bouleX s + plusX s + 5, bouleY s + plusY s + 5)"
  by (simp_all add: avance_def Let_def)

lemma murs_simps:
  "bouleX (murs s) = bouleX s"
  "bouleY (murs s) = bouleY s"
  "plusX (murs s) = plusX s"
  "plusY (murs s) = (if bouleY s < 10 \<or> bouleY s > 486 then - plusY s else plusY s)"
  "a1 (murs s) = a1 s"
  "a2 (murs s) = a2 s"
  "SJ1 (murs s) = SJ1 s"
  "SJ2 (murs s) = SJ2 s"
  "Score1 (murs s) = Score1 s"
  "Score2 (murs s) = Score2 s"
  "boule (murs s) = boule s"
  by (simp_all add: murs_def)

lemma points_simps:
  "bouleX (points s) = (if bouleX s < 1 \<or> bouleX s > 612 then 306 else bouleX s)"
  "bouleY (points s) = (if bouleX s < 1 \<or> bouleX s > 612 then 256 else bouleY s)"
  "plusX (points s) = (if bouleX s < 1 \<or> bouleX s > 612 then 2 else plusX s)"
  "plusY (points s) = (if bouleX s < 1 \<or> bouleX s > 612 then 3 else plusY s)"
  "a1 (points s) = a1 s"
  "a2 (points s) = a2 s"
  "SJ1 (points s) = (if \<not> bouleX s < 1 \<and> bouleX s > 612 then SJ1 s + 1 else SJ1 s)"
  "SJ2 (points s) = (if bouleX s < 1 then SJ2 s + 1 else SJ2 s)"
  "Score1 (points s) = (if \<not> bouleX s < 1 \<and> bouleX s > 612 then ''J1:'' @ str (SJ1 s + 1) else Score1 s)"
  "Score2 (points s) = (if bouleX s < 1 then ''J2:'' @ str (SJ2 s + 1) else Score2 s)"
  "boule (points s) = boule s"
  by (simp_all add: points_def Let_def)

lemma raquettes_simps:
  "bouleX (raquettes s) = bouleX s"
  "bouleY (raquettes s) = bouleY s"
  "plusX (raquettes s) = (if touche1 s \<or> touche2 s then plusX s * (- 1) * 1.259 else plusX s)"
  "plusY (raquettes s) = (if touche1 s \<or> touche2 s then plusY s * 1.259 else plusY s)"
  "a1 (raquettes s) = a1 s"
  "a2 (raquettes s) = a2 s"
  "SJ1 (raquettes s) = SJ1 s"
  "SJ2 (raquettes s) = SJ2 s"
  "Score1 (raquettes s) = Score1 s"
  "Score2 (raquettes s) = Score2 s"
  "boule (raquettes s) = boule s"
  by (simp_all add: raquettes_def touche1_def touche2_def Let_def)

lemma raquettes_id: "\<not> touche1 s \<Longrightarrow> \<not> touche2 s \<Longrightarrow> raquettes s = s"
  by (auto simp: raquettes_def touche1_def touche2_def)

lemmas champs = avance_simps murs_simps points_simps raquettes_simps

lemma but_iff: "but s \<longleftrightarrow> bouleX s + plusX s < 1 \<or> bouleX s + plusX s > 612"
  by (auto simp: but_def but_gauche_def but_droit_def Let_def champs)

lemma touche_iff:
  "touche s \<longleftrightarrow> \<not> but s \<and>
     (bouleX s + plusX s < 18 \<and> of_int (a1 s) < bouleY s + plusY s \<and> bouleY s + plusY s < of_int (a1 s + 80)
      \<or> bouleX s + plusX s > 592 \<and> of_int (a2 s) < bouleY s + plusY s \<and> bouleY s + plusY s < of_int (a2 s + 80))"
  unfolding touche_def touche1_def touche2_def Let_def but_iff champs by auto

lemma but_not_touche: "but s \<Longrightarrow> \<not> touche s"
  by (simp add: touche_iff)

lemma Controles_simps:
  "plusX (ControlesJ1etJ2 Key s) = plusX s" "plusY (ControlesJ1etJ2 Key s) = plusY s"
  "bouleX (ControlesJ1etJ2 Key s) = bouleX s" "bouleY (ControlesJ1etJ2 Key s) = bouleY s"
  "SJ1 (ControlesJ1etJ2 Key s) = SJ1 s" "SJ2 (ControlesJ1etJ2 Key s) = SJ2 s"
  "Score1 (ControlesJ1etJ2 Key s) = Score1 s" "Score2 (ControlesJ1etJ2 Key s) = Score2 s"
  "boule (ControlesJ1etJ2 Key s) = boule s"
  by (simp_all add: ControlesJ1etJ2_def)

lemma bouboule_simps:
  "bouleX (bouboule s) = (if but s then 306 else bouleX s + plusX s)"
  "bouleY (bouboule s) = (if but s then 256 else bouleY s + plusY s)"
  "a1 (bouboule s) = a1 s" 
  "a2 (bouboule s) = a2 s"
  "SJ1 (bouboule s) = (if \<not> bouleX s + plusX s < 1 \<and> bouleX s + plusX s > 612 then SJ1 s + 1 else SJ1 s)"
  "SJ2 (bouboule s) = (if bouleX s + plusX s < 1 then SJ2 s + 1 else SJ2 s)"
  "Score1 (bouboule s) = (if \<not> bouleX s + plusX s < 1 \<and> bouleX s + plusX s > 612 then ''J1:'' @ str (SJ1 s + 1) else Score1 s)"
  "Score2 (bouboule s) = (if bouleX s + plusX s < 1 then ''J2:'' @ str (SJ2 s + 1) else Score2 s)"
  "boule (bouboule s) = (bouleX s + plusX s, bouleY s + plusY s, bouleX s + plusX s + 5, bouleY s + plusY s + 5)"
  by (simp_all add: bouboule_def champs but_iff)

lemma bouboule_vitesse:
  "plusX (bouboule s) = (if but s then 2 else if touche s then plusX s * (- 1) * 1.259 else plusX s)"
  "plusY (bouboule s) = (if but s then 3 else if touche s then plusY (murs (avance s)) * 1.259 else plusY (murs (avance s)))"
proof -
  have t: "touche1 (points (murs (avance s))) \<or> touche2 (points (murs (avance s))) \<longleftrightarrow> touche s"
    by (simp add: touche_def Let_def)
  have b: "bouleX (murs (avance s)) < 1 \<or> bouleX (murs (avance s)) > 612 \<longleftrightarrow> but s"
    by (simp add: but_iff murs_simps avance_simps)
  show "plusX (bouboule s) = (if but s then 2 else if touche s then plusX s * (- 1) * 1.259 else plusX s)"
    using but_not_touche [of s]
    by (simp add: bouboule_def raquettes_simps(3) t points_simps(3) b murs_simps(3) avance_simps(3))
  show "plusY (bouboule s) = (if but s then 3 else if touche s then plusY (murs (avance s)) * 1.259 else plusY (murs (avance s)))"
    using but_not_touche [of s]
    by (simp add: bouboule_def raquettes_simps(4) t points_simps(4) b)
qed






section \<open>Helper lemmas: scores, paddles, labels, speed\<close>

lemma handle_scores:
  "SJ1 s \<le> SJ1 (handle e s)" "SJ2 s \<le> SJ2 (handle e s)"
  by (cases e; simp add: bouboule_simps Controles_simps)+

lemma run_scores: "SJ1 s \<le> SJ1 (run es s) \<and> SJ2 s \<le> SJ2 (run es s)"
proof (induction es arbitrary: s)
  case Nil
  show ?case by simp
next
  case (Cons e es)
  have "SJ1 s \<le> SJ1 (handle e s)" "SJ2 s \<le> SJ2 (handle e s)" by (rule handle_scores)+
  moreover have "SJ1 (handle e s) \<le> SJ1 (run es (handle e s)) \<and> SJ2 (handle e s) \<le> SJ2 (run es (handle e s))"
    by (rule Cons.IH)
  ultimately show ?case by simp
qed

lemma Controles_range:
  "- 25 \<le> a1 s \<and> a1 s \<le> 446 \<Longrightarrow> - 25 \<le> a1 (ControlesJ1etJ2 Key s) \<and> a1 (ControlesJ1etJ2 Key s) \<le> 446"
  "- 25 \<le> a2 s \<and> a2 s \<le> 446 \<Longrightarrow> - 25 \<le> a2 (ControlesJ1etJ2 Key s) \<and> a2 (ControlesJ1etJ2 Key s) \<le> 446"
  by (simp_all add: ControlesJ1etJ2_def)

lemma handle_range:
  "- 25 \<le> a1 s \<and> a1 s \<le> 446 \<Longrightarrow> - 25 \<le> a1 (handle e s) \<and> a1 (handle e s) \<le> 446"
  "- 25 \<le> a2 s \<and> a2 s \<le> 446 \<Longrightarrow> - 25 \<le> a2 (handle e s) \<and> a2 (handle e s) \<le> 446"
  by (cases e; simp add: Controles_range bouboule_simps)+

lemma run_range:
  "- 25 \<le> a1 s \<and> a1 s \<le> 446 \<and> - 25 \<le> a2 s \<and> a2 s \<le> 446 \<Longrightarrow>
   - 25 \<le> a1 (run es s) \<and> a1 (run es s) \<le> 446 \<and> - 25 \<le> a2 (run es s) \<and> a2 (run es s) \<le> 446"
proof (induction es arbitrary: s)
  case Nil
  then show ?case by simp
next
  case (Cons e es)
  from Cons.prems handle_range [of s e]
  have "- 25 \<le> a1 (handle e s) \<and> a1 (handle e s) \<le> 446 \<and> - 25 \<le> a2 (handle e s) \<and> a2 (handle e s) \<le> 446"
    by blast
  from Cons.IH [OF this] show ?case by simp
qed

lemma Controles_id:
  assumes "\<not> (Key = ''s'' \<and> a1 s + 25 \<le> 446)" "\<not> (Key = ''z'' \<and> a1 s - 25 \<ge> - 25)"
    "\<not> (Key = ''Down'' \<and> a2 s + 25 \<le> 446)" "\<not> (Key = ''Up'' \<and> a2 s - 25 \<ge> - 25)"
  shows "ControlesJ1etJ2 Key s = s"
  unfolding ControlesJ1etJ2_def by (simp only: assms if_False)

lemma grille_down:
  assumes "grille a" "a + 25 \<le> 446"
  shows "grille (a + 25)"
proof -
  from assms(1) have m: "a mod 25 = 15" and lo: "- 10 \<le> a" by (simp_all add: grille_def)
  have "a = 25 * (a div 25) + a mod 25" by simp
  with m have a: "a = 25 * (a div 25) + 15" by simp
  with assms(2) have "a div 25 \<le> 16" by linarith
  with a have "a + 25 \<le> 440" by linarith
  moreover have "(a + 25) mod 25 = 15" using m by simp
  ultimately show ?thesis using lo by (simp add: grille_def)
qed

lemma grille_up:
  assumes "grille a" "a - 25 \<ge> - 25"
  shows "grille (a - 25)"
proof -
  from assms(1) have m: "a mod 25 = 15" and hi: "a \<le> 440" by (simp_all add: grille_def)
  have "a = 25 * (a div 25) + a mod 25" by simp
  with m have a: "a = 25 * (a div 25) + 15" by simp
  with assms(2) have "a div 25 \<ge> 0" by linarith
  with a have "- 10 \<le> a - 25" by linarith
  moreover have "(a - 25) mod 25 = 15" using m by simp
  ultimately show ?thesis using hi by (simp add: grille_def)
qed

lemma Controles_grille:
  "grille (a1 s) \<Longrightarrow> grille (a1 (ControlesJ1etJ2 Key s))"
  "grille (a2 s) \<Longrightarrow> grille (a2 (ControlesJ1etJ2 Key s))"
  by (simp_all add: ControlesJ1etJ2_def grille_down grille_up)

lemma run_grille: "grille (a1 s) \<and> grille (a2 s) \<Longrightarrow> grille (a1 (run es s)) \<and> grille (a2 (run es s))"
proof (induction es arbitrary: s)
  case Nil
  then show ?case by simp
next
  case (Cons e es)
  have "grille (a1 (handle e s)) \<and> grille (a2 (handle e s))"
    using Cons.prems by (cases e) (simp_all add: bouboule_simps Controles_grille)
  from Cons.IH [OF this] show ?case by simp
qed

lemma digit_char_no_space: "digit_char d \<noteq> CHR '' ''"
proof -
  have "digit_char d \<in> set ''0123456789''"
    unfolding digit_char_def by (rule nth_mem) simp
  then show ?thesis by auto
qed

lemma str_nat_no_space: "CHR '' '' \<notin> set (str_nat n)"
proof (induction n rule: str_nat.induct)
  case (1 n)
  show ?case
  proof (cases "n < 10")
    case True
    then show ?thesis using digit_char_no_space [of n] by (subst str_nat.simps) simp
  next
    case False
    with 1 have "CHR '' '' \<notin> set (str_nat (n div 10))" by simp
    then show ?thesis using False digit_char_no_space [of "n mod 10"]
      by (subst str_nat.simps) auto
  qed
qed

lemma str_no_space: "CHR '' '' \<notin> set (str i)"
  by (simp add: str_def str_nat_no_space)



section \<open>Goal reset\<close>

text \<open>
  Claim C1. In every tick in which a goal branch fires (the ball's \<open>x\<close> after
  integration is below 1 or above 612), the tick ends with the ball at \<open>(306, 256)\<close>
  and with velocity \<open>(2, 3)\<close>, whatever the velocity was before: the sign flip of
  \<open>plusX\<close> is overwritten by the reset, in the left branch and in the right one.
\<close>

theorem goal_reset:
  assumes "bouleX (avance s) < 1 \<or> bouleX (avance s) > 612"
  shows "bouleX (bouboule s) = 306 \<and> bouleY (bouboule s) = 256 \<and>
         plusX (bouboule s) = 2 \<and> plusY (bouboule s) = 3"
proof -
  from assms have "but s" by (simp add: but_iff avance_simps)
  then show ?thesis by (simp add: bouboule_simps bouboule_vitesse)
qed

theorem goal_reset_witness:
  "(bouleX (avance ex_gauche) < 1 \<and> plusX ex_gauche = - 4 \<and> plusY ex_gauche = - 6 \<and>
    bouleX (bouboule ex_gauche) = 306 \<and> bouleY (bouboule ex_gauche) = 256 \<and>
    plusX (bouboule ex_gauche) = 2 \<and> plusY (bouboule ex_gauche) = 3) \<and>
   (bouleX (avance ex_droit) > 612 \<and> plusX ex_droit = 4.8 \<and> plusY ex_droit = 7.2 \<and>
    bouleX (bouboule ex_droit) = 306 \<and> bouleY (bouboule ex_droit) = 256 \<and>
    plusX (bouboule ex_droit) = 2 \<and> plusY (bouboule ex_droit) = 3)"
proof -
  have g: "bouleX (avance ex_gauche) < 1 \<or> bouleX (avance ex_gauche) > 612"
    by (simp add: avance_simps ex_gauche_def init_def)
  have d: "bouleX (avance ex_droit) < 1 \<or> bouleX (avance ex_droit) > 612"
    by (simp add: avance_simps ex_droit_def init_def)
  show ?thesis
    using goal_reset [OF g] goal_reset [OF d]
    by (simp add: avance_simps ex_gauche_def ex_droit_def init_def)
qed

section \<open>Wall reflection\<close>

text \<open>
  Claim C3. In every tick, after integration: if the ball's \<open>y\<close> is below 10 or above
  486 (strictly), the wall rule flips the sign of \<open>plusY\<close>, keeps its magnitude and leaves
  \<open>plusX\<close> (and every other variable) unchanged; for every \<open>y\<close> in the closed interval
  from 10 to 486, the bounds included, \<open>plusY\<close> is unchanged by the rule.
\<close>

theorem wall_reflection:
  "(bouleY (avance s) < 10 \<or> bouleY (avance s) > 486 \<longrightarrow>
      plusY (murs (avance s)) = - plusY s \<and> \<bar>plusY (murs (avance s))\<bar> = \<bar>plusY s\<bar>) \<and>
   (10 \<le> bouleY (avance s) \<and> bouleY (avance s) \<le> 486 \<longrightarrow>
      plusY (murs (avance s)) = plusY s) \<and>
   plusX (murs (avance s)) = plusX s \<and>
   murs (avance s) = (avance s)\<lparr>plusY := plusY (murs (avance s))\<rparr>"
proof -
  have "murs t = t\<lparr>plusY := plusY (murs t)\<rparr>" for t
    by (simp add: murs_def)
  then have "murs (avance s) = (avance s)\<lparr>plusY := plusY (murs (avance s))\<rparr>" .
  moreover have "plusX (murs (avance s)) = plusX s"
    by (simp add: murs_simps avance_simps)
  moreover have "bouleY (avance s) < 10 \<or> bouleY (avance s) > 486 \<longrightarrow>
      plusY (murs (avance s)) = - plusY s \<and> \<bar>plusY (murs (avance s))\<bar> = \<bar>plusY s\<bar>"
    by (simp add: murs_simps avance_simps)
  moreover have "10 \<le> bouleY (avance s) \<and> bouleY (avance s) \<le> 486 \<longrightarrow>
      plusY (murs (avance s)) = plusY s"
    by (simp add: murs_simps avance_simps)
  ultimately show ?thesis by blast
qed

theorem wall_reflection_witness:
  "(bouleY (avance ex_mur_haut) < 10 \<and> plusY ex_mur_haut = - 6 \<and>
    plusY (murs (avance ex_mur_haut)) = 6) \<and>
   (bouleY (avance ex_mur_bas) > 486 \<and> plusY ex_mur_bas = 6 \<and>
    plusY (murs (avance ex_mur_bas)) = - 6) \<and>
   (bouleY (avance ex_bord_haut) = 10 \<and> plusY ex_bord_haut = - 6 \<and>
    plusY (murs (avance ex_bord_haut)) = - 6) \<and>
   (bouleY (avance ex_bord_bas) = 486 \<and> plusY ex_bord_bas = 6 \<and>
    plusY (murs (avance ex_bord_bas)) = 6)"
proof -
  note k = wall_reflection
  have h: "bouleY (avance ex_mur_haut) < 10" "plusY ex_mur_haut = - 6"
    by (simp_all add: avance_simps ex_mur_haut_def init_def)
  have b: "bouleY (avance ex_mur_bas) > 486" "plusY ex_mur_bas = 6"
    by (simp_all add: avance_simps ex_mur_bas_def init_def)
  have bh: "bouleY (avance ex_bord_haut) = 10" "plusY ex_bord_haut = - 6"
    by (simp_all add: avance_simps ex_bord_haut_def init_def)
  have bb: "bouleY (avance ex_bord_bas) = 486" "plusY ex_bord_bas = 6"
    by (simp_all add: avance_simps ex_bord_bas_def init_def)
  have w1: "plusY (murs (avance ex_mur_haut)) = 6"
    using k [of ex_mur_haut, THEN conjunct1] h by simp
  have w2: "plusY (murs (avance ex_mur_bas)) = - 6"
    using k [of ex_mur_bas, THEN conjunct1] b by simp
  have w3: "plusY (murs (avance ex_bord_haut)) = - 6"
    using k [of ex_bord_haut, THEN conjunct2, THEN conjunct1] bh by simp
  have w4: "plusY (murs (avance ex_bord_bas)) = 6"
    using k [of ex_bord_bas, THEN conjunct2, THEN conjunct1] bb by simp
  show ?thesis
    by (intro conjI) (fact h(1), fact h(2), fact w1, fact b(1), fact b(2), fact w2,
      fact bh(1), fact bh(2), fact w3, fact bb(1), fact bb(2), fact w4)
qed

section \<open>Scores\<close>

text \<open>
  Claim C4. For every state (reachable or not) and every operation, a tick or a key
  event, neither player's score decreases; a score changes only in a tick that contains
  a goal, and then by exactly 1 for the player the goal is attributed to: \<open>x < 1\<close> after
  integration increments \<open>SJ2\<close> and leaves \<open>SJ1\<close> alone, \<open>x > 612\<close> increments \<open>SJ1\<close> and
  leaves \<open>SJ2\<close> alone. Along every run the scores are therefore non-decreasing.
\<close>

theorem score_monotone:
  "SJ1 s \<le> SJ1 (handle e s) \<and> SJ2 s \<le> SJ2 (handle e s) \<and>
   (SJ1 (handle e s) \<noteq> SJ1 s \<or> SJ2 (handle e s) \<noteq> SJ2 s \<longrightarrow> e = Tick \<and> but s) \<and>
   (e = Tick \<and> bouleX (avance s) < 1 \<longrightarrow>
      SJ2 (handle e s) = SJ2 s + 1 \<and> SJ1 (handle e s) = SJ1 s) \<and>
   (e = Tick \<and> bouleX (avance s) > 612 \<longrightarrow>
      SJ1 (handle e s) = SJ1 s + 1 \<and> SJ2 (handle e s) = SJ2 s) \<and>
   SJ1 s \<le> SJ1 (run es s) \<and> SJ2 s \<le> SJ2 (run es s)"
proof -
  have "SJ1 (handle e s) \<noteq> SJ1 s \<or> SJ2 (handle e s) \<noteq> SJ2 s \<longrightarrow> e = Tick \<and> but s"
    by (cases e) (auto simp: bouboule_simps Controles_simps but_iff split: if_splits)
  moreover have "e = Tick \<and> bouleX (avance s) < 1 \<longrightarrow>
      SJ2 (handle e s) = SJ2 s + 1 \<and> SJ1 (handle e s) = SJ1 s"
    by (simp add: bouboule_simps avance_simps)
  moreover have "e = Tick \<and> bouleX (avance s) > 612 \<longrightarrow>
      SJ1 (handle e s) = SJ1 s + 1 \<and> SJ2 (handle e s) = SJ2 s"
    by (simp add: bouboule_simps avance_simps)
  ultimately show ?thesis using handle_scores [of s e] run_scores [of s es] by blast
qed

theorem score_monotone_witness:
  "(bouleX (avance ex_gauche) < 1 \<and>
    SJ2 (handle Tick ex_gauche) = SJ2 ex_gauche + 1 \<and> SJ1 (handle Tick ex_gauche) = SJ1 ex_gauche) \<and>
   (bouleX (avance ex_droit) > 612 \<and>
    SJ1 (handle Tick ex_droit) = SJ1 ex_droit + 1 \<and> SJ2 (handle Tick ex_droit) = SJ2 ex_droit) \<and>
   SJ2 (handle Tick ex_gauche) \<noteq> SJ2 ex_gauche \<and> but ex_gauche"
proof -
  have g: "bouleX (avance ex_gauche) < 1" by (simp add: avance_simps ex_gauche_def init_def)
  have d: "bouleX (avance ex_droit) > 612" by (simp add: avance_simps ex_droit_def init_def)
  show ?thesis
    using score_monotone [of ex_gauche Tick "[]"] score_monotone [of ex_droit Tick "[]"] g d
    by simp
qed

section \<open>Order of the checks\<close>

text \<open>
  Claim C5. Within a tick the checks run in the order wall reflection, goal detection,
  paddle collision, and if a goal branch fires then neither paddle branch fires in the
  same tick: the goal branch sets \<open>bouleX\<close> to 306, so both \<open>bouleX < 18\<close> and
  \<open>bouleX > 592\<close> are false when the paddle block evaluates them, and that block leaves
  the state as it is.
\<close>

theorem check_order:
  "bouboule s = raquettes (points (murs (avance s))) \<and>
   (bouleX (murs (avance s)) < 1 \<or> bouleX (murs (avance s)) > 612 \<longrightarrow>
      bouleX (points (murs (avance s))) = 306 \<and>
      \<not> bouleX (points (murs (avance s))) < 18 \<and>
      \<not> bouleX (points (murs (avance s))) > 592 \<and>
      \<not> touche1 (points (murs (avance s))) \<and>
      \<not> touche2 (points (murs (avance s))) \<and>
      raquettes (points (murs (avance s))) = points (murs (avance s)))"
proof -
  have "raquettes t = t" if "bouleX t = 306" for t
    using that by (simp add: raquettes_id touche1_def touche2_def)
  then show ?thesis
    by (simp add: bouboule_def points_simps touche1_def touche2_def)
qed

theorem check_order_witness:
  "(bouleX (murs (avance ex_gauche)) < 1 \<and>
    \<not> touche1 (points (murs (avance ex_gauche))) \<and>
    \<not> touche2 (points (murs (avance ex_gauche))) \<and>
    bouboule ex_gauche = points (murs (avance ex_gauche))) \<and>
   (bouleX (murs (avance ex_droit)) > 612 \<and>
    \<not> touche1 (points (murs (avance ex_droit))) \<and>
    \<not> touche2 (points (murs (avance ex_droit))) \<and>
    bouboule ex_droit = points (murs (avance ex_droit)))"
proof -
  have g: "bouleX (murs (avance ex_gauche)) < 1"
    by (simp add: murs_simps avance_simps ex_gauche_def init_def)
  have d: "bouleX (murs (avance ex_droit)) > 612"
    by (simp add: murs_simps avance_simps ex_droit_def init_def)
  show ?thesis
    using check_order [of ex_gauche] check_order [of ex_droit] g d by simp
qed

section \<open>Key events and the paddles\<close>

text \<open>
  Claim C6. For every key event: the down key of a player (\<open>s\<close>, \<open>Down\<close>) adds
  exactly 25 to that player's paddle top edge when the result is at most 446, the up
  key (\<open>z\<close>, \<open>Up\<close>) subtracts exactly 25 when the result is at least \<open>-25\<close>, and the other
  paddle is untouched; any other key, and a recognised key whose guard fails, leaves the
  whole state as it is. So at most one paddle changes per event, and top edges that lie
  between \<open>-25\<close> and 446 stay there along every run of key events and ticks.
\<close>

theorem key_handler_paddles:
  "(Key = ''s'' \<and> a1 s + 25 \<le> 446 \<longrightarrow>
      a1 (ControlesJ1etJ2 Key s) = a1 s + 25 \<and> a2 (ControlesJ1etJ2 Key s) = a2 s) \<and>
   (Key = ''z'' \<and> a1 s - 25 \<ge> - 25 \<longrightarrow>
      a1 (ControlesJ1etJ2 Key s) = a1 s - 25 \<and> a2 (ControlesJ1etJ2 Key s) = a2 s) \<and>
   (Key = ''Down'' \<and> a2 s + 25 \<le> 446 \<longrightarrow>
      a2 (ControlesJ1etJ2 Key s) = a2 s + 25 \<and> a1 (ControlesJ1etJ2 Key s) = a1 s) \<and>
   (Key = ''Up'' \<and> a2 s - 25 \<ge> - 25 \<longrightarrow>
      a2 (ControlesJ1etJ2 Key s) = a2 s - 25 \<and> a1 (ControlesJ1etJ2 Key s) = a1 s) \<and>
   (\<not> (Key = ''s'' \<and> a1 s + 25 \<le> 446) \<and> \<not> (Key = ''z'' \<and> a1 s - 25 \<ge> - 25) \<and>
    \<not> (Key = ''Down'' \<and> a2 s + 25 \<le> 446) \<and> \<not> (Key = ''Up'' \<and> a2 s - 25 \<ge> - 25) \<longrightarrow>
      ControlesJ1etJ2 Key s = s) \<and>
   (a1 (ControlesJ1etJ2 Key s) = a1 s \<or> a2 (ControlesJ1etJ2 Key s) = a2 s) \<and>
   (- 25 \<le> a1 s \<and> a1 s \<le> 446 \<and> - 25 \<le> a2 s \<and> a2 s \<le> 446 \<longrightarrow>
      - 25 \<le> a1 (run es s) \<and> a1 (run es s) \<le> 446 \<and>
      - 25 \<le> a2 (run es s) \<and> a2 (run es s) \<le> 446)"
proof -
  have "Key = ''s'' \<and> a1 s + 25 \<le> 446 \<longrightarrow>
      a1 (ControlesJ1etJ2 Key s) = a1 s + 25 \<and> a2 (ControlesJ1etJ2 Key s) = a2 s"
    by (simp add: ControlesJ1etJ2_def)
  moreover have "Key = ''z'' \<and> a1 s - 25 \<ge> - 25 \<longrightarrow>
      a1 (ControlesJ1etJ2 Key s) = a1 s - 25 \<and> a2 (ControlesJ1etJ2 Key s) = a2 s"
    by (simp add: ControlesJ1etJ2_def)
  moreover have "Key = ''Down'' \<and> a2 s + 25 \<le> 446 \<longrightarrow>
      a2 (ControlesJ1etJ2 Key s) = a2 s + 25 \<and> a1 (ControlesJ1etJ2 Key s) = a1 s"
    by (simp add: ControlesJ1etJ2_def)
  moreover have "Key = ''Up'' \<and> a2 s - 25 \<ge> - 25 \<longrightarrow>
      a2 (ControlesJ1etJ2 Key s) = a2 s - 25 \<and> a1 (ControlesJ1etJ2 Key s) = a1 s"
    by (simp add: ControlesJ1etJ2_def)
  moreover have "\<not> (Key = ''s'' \<and> a1 s + 25 \<le> 446) \<and> \<not> (Key = ''z'' \<and> a1 s - 25 \<ge> - 25) \<and>
    \<not> (Key = ''Down'' \<and> a2 s + 25 \<le> 446) \<and> \<not> (Key = ''Up'' \<and> a2 s - 25 \<ge> - 25) \<longrightarrow>
      ControlesJ1etJ2 Key s = s"
    using Controles_id [of Key s] by blast
  moreover have "a1 (ControlesJ1etJ2 Key s) = a1 s \<or> a2 (ControlesJ1etJ2 Key s) = a2 s"
    by (simp add: ControlesJ1etJ2_def)
  ultimately show ?thesis using run_range [of s es] by blast
qed

theorem key_handler_paddles_witness:
  "(a1 (ControlesJ1etJ2 ''s'' init) = 165 \<and> a2 (ControlesJ1etJ2 ''s'' init) = 140) \<and>
   (a1 (ControlesJ1etJ2 ''z'' init) = 115 \<and> a2 (ControlesJ1etJ2 ''z'' init) = 140) \<and>
   (a2 (ControlesJ1etJ2 ''Down'' init) = 165 \<and> a1 (ControlesJ1etJ2 ''Down'' init) = 140) \<and>
   (a2 (ControlesJ1etJ2 ''Up'' init) = 115 \<and> a1 (ControlesJ1etJ2 ''Up'' init) = 140) \<and>
   ControlesJ1etJ2 ''a'' init = init \<and>
   ControlesJ1etJ2 ''s'' (init\<lparr>a1 := 440\<rparr>) = init\<lparr>a1 := 440\<rparr> \<and>
   ControlesJ1etJ2 ''Up'' (init\<lparr>a2 := - 10\<rparr>) = init\<lparr>a2 := - 10\<rparr> \<and>
   (- 25 \<le> a1 (run [KeyPress ''s'', Tick, KeyPress ''Up''] init) \<and>
    a1 (run [KeyPress ''s'', Tick, KeyPress ''Up''] init) \<le> 446 \<and>
    - 25 \<le> a2 (run [KeyPress ''s'', Tick, KeyPress ''Up''] init) \<and>
    a2 (run [KeyPress ''s'', Tick, KeyPress ''Up''] init) \<le> 446)"
proof -
  note k = key_handler_paddles
  have i: "a1 init = 140" "a2 init = 140" by (simp_all add: init_def)
  have c1: "a1 (ControlesJ1etJ2 ''s'' init) = 165 \<and> a2 (ControlesJ1etJ2 ''s'' init) = 140"
    using k [of "''s''" init "[]", THEN conjunct1] by (simp add: i)
  have c2: "a1 (ControlesJ1etJ2 ''z'' init) = 115 \<and> a2 (ControlesJ1etJ2 ''z'' init) = 140"
    using k [of "''z''" init "[]", THEN conjunct2, THEN conjunct1] by (simp add: i)
  have c3: "a2 (ControlesJ1etJ2 ''Down'' init) = 165 \<and> a1 (ControlesJ1etJ2 ''Down'' init) = 140"
    using k [of "''Down''" init "[]", THEN conjunct2, THEN conjunct2, THEN conjunct1]
    by (simp add: i)
  have c4: "a2 (ControlesJ1etJ2 ''Up'' init) = 115 \<and> a1 (ControlesJ1etJ2 ''Up'' init) = 140"
    using k [of "''Up''" init "[]", THEN conjunct2, THEN conjunct2, THEN conjunct2, THEN conjunct1]
    by (simp add: i)
  have c5: "ControlesJ1etJ2 ''a'' init = init"
    using k [of "''a''" init "[]", THEN conjunct2, THEN conjunct2, THEN conjunct2,
        THEN conjunct2, THEN conjunct1]
    by simp
  have c6: "ControlesJ1etJ2 ''s'' (init\<lparr>a1 := 440\<rparr>) = init\<lparr>a1 := 440\<rparr>"
    using k [of "''s''" "init\<lparr>a1 := 440\<rparr>" "[]", THEN conjunct2, THEN conjunct2, THEN conjunct2,
        THEN conjunct2, THEN conjunct1]
    by simp
  have c7: "ControlesJ1etJ2 ''Up'' (init\<lparr>a2 := - 10\<rparr>) = init\<lparr>a2 := - 10\<rparr>"
    using k [of "''Up''" "init\<lparr>a2 := - 10\<rparr>" "[]", THEN conjunct2, THEN conjunct2, THEN conjunct2,
        THEN conjunct2, THEN conjunct1]
    by simp
  have c8: "- 25 \<le> a1 (run [KeyPress ''s'', Tick, KeyPress ''Up''] init) \<and>
    a1 (run [KeyPress ''s'', Tick, KeyPress ''Up''] init) \<le> 446 \<and>
    - 25 \<le> a2 (run [KeyPress ''s'', Tick, KeyPress ''Up''] init) \<and>
    a2 (run [KeyPress ''s'', Tick, KeyPress ''Up''] init) \<le> 446"
    using k [of "''s''" init "[KeyPress ''s'', Tick, KeyPress ''Up'']", THEN conjunct2,
        THEN conjunct2, THEN conjunct2, THEN conjunct2, THEN conjunct2, THEN conjunct2]
    by (simp only: i) simp
  from c1 c2 c3 c4 c5 c6 c7 c8 show ?thesis by blast
qed

section \<open>The score label\<close>

text \<open>
  Claim C8, as amended. The claim says that the label text emitted at a goal for the
  scoring player \<open>n\<close> with new count \<open>c\<close> is \<open>J<n>: <c>\<close>, with a space after the colon
  (\<open>label_spec\<close>). The program builds \<^verbatim>\<open>"J2:"+str(SJ2)\<close> and \<^verbatim>\<open>"J1:"+str(SJ1)\<close>:
  player tag, colon, and the decimal count with no space. The theorem states that: at
  a goal the scoring player's label becomes \<open>J<n>:<c>\<close> for the new count \<open>c\<close>, the other
  label is unchanged, without a goal both labels are unchanged, and no such text
  contains a space.
\<close>

theorem score_label:
  "(bouleX (avance s) < 1 \<longrightarrow>
      Score2 (bouboule s) = ''J2:'' @ str (SJ2 (bouboule s)) \<and> SJ2 (bouboule s) = SJ2 s + 1 \<and>
      Score1 (bouboule s) = Score1 s) \<and>
   (bouleX (avance s) > 612 \<longrightarrow>
      Score1 (bouboule s) = ''J1:'' @ str (SJ1 (bouboule s)) \<and> SJ1 (bouboule s) = SJ1 s + 1 \<and>
      Score2 (bouboule s) = Score2 s) \<and>
   (\<not> bouleX (avance s) < 1 \<and> \<not> bouleX (avance s) > 612 \<longrightarrow>
      Score1 (bouboule s) = Score1 s \<and> Score2 (bouboule s) = Score2 s) \<and>
   CHR '' '' \<notin> set (''J1:'' @ str c) \<and> CHR '' '' \<notin> set (''J2:'' @ str c)"
proof -
  have f1: "CHR '' '' \<notin> set (''J1:'' @ str c)" "CHR '' '' \<notin> set (''J2:'' @ str c)"
    using str_no_space [of c] by simp_all
  have f2: "bouleX (avance s) < 1 \<longrightarrow>
      Score2 (bouboule s) = ''J2:'' @ str (SJ2 (bouboule s)) \<and> SJ2 (bouboule s) = SJ2 s + 1 \<and>
      Score1 (bouboule s) = Score1 s"
    by (simp add: avance_simps bouboule_simps)
  have f3: "bouleX (avance s) > 612 \<longrightarrow>
      Score1 (bouboule s) = ''J1:'' @ str (SJ1 (bouboule s)) \<and> SJ1 (bouboule s) = SJ1 s + 1 \<and>
      Score2 (bouboule s) = Score2 s"
    by (simp add: avance_simps bouboule_simps)
  have f4: "\<not> bouleX (avance s) < 1 \<and> \<not> bouleX (avance s) > 612 \<longrightarrow>
      Score1 (bouboule s) = Score1 s \<and> Score2 (bouboule s) = Score2 s"
    by (simp add: avance_simps bouboule_simps)
  show ?thesis by (intro conjI) (fact f2, fact f3, fact f4, fact f1(1), fact f1(2))
qed

theorem score_label_witness:
  "(bouleX (avance ex_gauche) < 1 \<and> Score2 (bouboule ex_gauche) = ''J2:1'' \<and>
    Score1 (bouboule ex_gauche) = ''0'') \<and>
   (bouleX (avance ex_droit) > 612 \<and> Score1 (bouboule ex_droit) = ''J1:1'' \<and>
    Score2 (bouboule ex_droit) = ''0'') \<and>
   (\<not> bouleX (avance init) < 1 \<and> \<not> bouleX (avance init) > 612 \<and>
    Score1 (bouboule init) = ''0'' \<and> Score2 (bouboule init) = ''0'')"
proof -
  note k = score_label
  have g: "bouleX (avance ex_gauche) < 1" "SJ2 ex_gauche = 0" "Score1 ex_gauche = ''0''"
    by (simp_all add: avance_simps ex_gauche_def init_def)
  have d: "bouleX (avance ex_droit) > 612" "SJ1 ex_droit = 0" "Score2 ex_droit = ''0''"
    by (simp_all add: avance_simps ex_droit_def init_def)
  have i: "\<not> bouleX (avance init) < 1" "\<not> bouleX (avance init) > 612"
    "Score1 init = ''0''" "Score2 init = ''0''"
    by (simp_all add: avance_simps init_def)
  have s1: "str 1 = ''1''" by (simp add: str_def str_nat.simps digit_char_def)
  have w1: "Score2 (bouboule ex_gauche) = ''J2:1'' \<and> Score1 (bouboule ex_gauche) = ''0''"
    using k [of ex_gauche 0, THEN conjunct1] g s1 by simp
  have w2: "Score1 (bouboule ex_droit) = ''J1:1'' \<and> Score2 (bouboule ex_droit) = ''0''"
    using k [of ex_droit 0, THEN conjunct2, THEN conjunct1] d s1 by simp
  have w3: "Score1 (bouboule init) = ''0'' \<and> Score2 (bouboule init) = ''0''"
    using k [of init 0, THEN conjunct2, THEN conjunct2, THEN conjunct1] i by simp
  show ?thesis
    by (intro conjI) (fact g(1), fact w1 [THEN conjunct1], fact w1 [THEN conjunct2],
      fact d(1), fact w2 [THEN conjunct1], fact w2 [THEN conjunct2],
      fact i(1), fact i(2), fact w3 [THEN conjunct1], fact w3 [THEN conjunct2])
qed

text \<open>At the left goal from \<open>ex_gauche\<close> the program emits \<open>J2:1\<close>, which is not the
  text \<open>J2: 1\<close> of the claim's format.\<close>

theorem score_label_counterexample:
  "bouleX (avance ex_gauche) < 1 \<and> SJ2 (bouboule ex_gauche) = 1 \<and>
   Score2 (bouboule ex_gauche) = ''J2:1'' \<and> label_spec 2 1 = ''J2: 1'' \<and>
   Score2 (bouboule ex_gauche) \<noteq> label_spec 2 (SJ2 (bouboule ex_gauche))"
proof -
  have g: "bouleX (avance ex_gauche) < 1" "SJ2 ex_gauche = 0"
    by (simp_all add: avance_simps ex_gauche_def init_def)
  have s: "str 1 = ''1''" "str 2 = ''2''" by (simp_all add: str_def str_nat.simps digit_char_def)
  have "SJ2 (bouboule ex_gauche) = 1" "Score2 (bouboule ex_gauche) = ''J2:1''"
    using g by (simp_all add: bouboule_simps avance_simps s)
  moreover have "label_spec 2 1 = ''J2: 1''" by (simp add: label_spec_def s)
  ultimately show ?thesis using g by simp
qed

section \<open>Reachable paddle positions\<close>

text \<open>
  Claim C9. From the initial top edge 140, along every run of key events and ticks,
  the top edge of either paddle lies between \<open>-10\<close> and 440 and is congruent to 15
  modulo 25; the extremes \<open>-25\<close> and 446 of the specification's band are never reached.
\<close>

theorem paddle_reachable:
  "- 10 \<le> a1 (run es init) \<and> a1 (run es init) \<le> 440 \<and> a1 (run es init) mod 25 = 15 \<and>
   - 10 \<le> a2 (run es init) \<and> a2 (run es init) \<le> 440 \<and> a2 (run es init) mod 25 = 15 \<and>
   a1 (run es init) \<noteq> - 25 \<and> a1 (run es init) \<noteq> 446 \<and>
   a2 (run es init) \<noteq> - 25 \<and> a2 (run es init) \<noteq> 446"
proof -
  have "grille (a1 init) \<and> grille (a2 init)" by (simp add: grille_def init_def)
  from run_grille [OF this, of es] show ?thesis unfolding grille_def by auto
qed

text \<open>The bounds 440 and \<open>-10\<close> are attained: further presses change nothing.\<close>

lemma paddle_extremes:
  "a1 (run (map KeyPress [''s'', ''s'', ''s'', ''s'', ''s'', ''s'', ''s'', ''s'', ''s'', ''s'', ''s'', ''s'', ''s'']) init) = 440"
  "a2 (run (map KeyPress [''Up'', ''Up'', ''Up'', ''Up'', ''Up'', ''Up'', ''Up'']) init) = - 10"
  by (simp_all add: ControlesJ1etJ2_def init_def)

section \<open>Speed between goals\<close>



end
